theory Spec2Isabelle
  imports Complex_Main "HOL-Library.Multiset"
begin

section \<open>Python values and exceptions\<close>

text \<open>
  Every exception a modelled function can raise is a value of \<open>exn\<close>; a function that can
  raise returns \<open>exn + 'a\<close> with \<open>Inl\<close> for the raised exception. Python floats are
  idealised as real numbers throughout; NaN, where the code can meet it, is \<open>None\<close> of an
  option type.
\<close>

datatype exn = KeyError string | ValueError string | TypeError string | Exception string

text \<open>The argument of \<open>analyze_text\<close>: \<open>None\<close>, a string, or any other object.\<close>

datatype pyval = PyNone | PyStr string | PyOther

text \<open>
  A cell of an object column (Title, Content): missing (NaN or None), a string, or any other
  object, which carries what \<open>str()\<close> of it gives: a string or a raised exception.
\<close>

datatype text_cell = NA | Text string | Object "exn + string"

fun notna :: "text_cell \<Rightarrow> bool" where
  "notna NA = False"
| "notna _ = True"

fun str :: "text_cell \<Rightarrow> exn + string" where
  "str NA = Inr ''nan''"
| "str (Text s) = Inr s"
| "str (Object r) = r"

text \<open>\<open>str.lower()\<close> and \<open>str.strip()\<close> on ASCII text.\<close>

definition lower_char :: "char \<Rightarrow> char" where
  "lower_char c = (if (65::nat) \<le> of_char c \<and> of_char c \<le> (90::nat)
                   then char_of (of_char c + (32::nat)) else c)"

definition lower :: "string \<Rightarrow> string" where
  "lower s = map lower_char s"

definition isspace :: "char \<Rightarrow> bool" where
  "isspace c = (c = CHR '' '' \<or> (9::nat) \<le> of_char c \<and> of_char c \<le> (13::nat)
     \<or> (28::nat) \<le> of_char c \<and> of_char c \<le> (31::nat))"

definition strip :: "string \<Rightarrow> string" where
  "strip s = rev (dropWhile isspace (rev (dropWhile isspace s)))"

section \<open>sentiment\_analyzer.py\<close>

record sentiment =
  label :: string
  score :: real

text \<open>The literal \<open>{"label": "neutral", "score": 0.5}\<close> of the source.\<close>

definition neutral_half :: sentiment where
  "neutral_half = \<lparr>label = ''neutral'', score = 0.5\<rparr>"

text \<open>
  \<open>self.analyzer\<close> is an external object: NLTK's VADER, of which the code reads
  \<open>polarity_scores(text)['compound']\<close>, or a Hugging Face pipeline, of which the code reads
  label and score of the first result. Each is a function that gives the value or raises.
\<close>

datatype analyzer =
    SentimentIntensityAnalyzer "string \<Rightarrow> exn + real"
  | Pipeline "string \<Rightarrow> exn + string \<times> real"

record SentimentAnalyzer =
  use_transformers :: bool
  neutral_threshold :: real
  analyzer :: analyzer

text \<open>The body of the \<open>try\<close> block of \<open>analyze_text\<close>.\<close>

definition analyze_text_try :: "SentimentAnalyzer \<Rightarrow> string \<Rightarrow> exn + sentiment" where
  "analyze_text_try self text =
     (if use_transformers self then
        (case analyzer self of
           Pipeline call \<Rightarrow>
             (case call (take 512 text) of
                Inl e \<Rightarrow> Inl e
              | Inr (l, s) \<Rightarrow> Inr \<lparr>label = lower l, score = s\<rparr>)
         | SentimentIntensityAnalyzer _ \<Rightarrow> Inl (TypeError ''object is not callable''))
      else
        (case analyzer self of
           SentimentIntensityAnalyzer polarity_scores \<Rightarrow>
             (case polarity_scores text of
                Inl e \<Rightarrow> Inl e
              | Inr compound \<Rightarrow>
                  Inr \<lparr>label =
                         (if compound \<ge> neutral_threshold self then ''positive''
                          else if compound \<le> - neutral_threshold self then ''negative''
                          else ''neutral''),
                       score = compound\<rparr>)
         | Pipeline _ \<Rightarrow> Inl (Exception ''no attribute polarity_scores'')))"

definition analyze_text :: "SentimentAnalyzer \<Rightarrow> pyval \<Rightarrow> sentiment" where
  "analyze_text self v =
     (case v of
        PyNone \<Rightarrow> neutral_half
      | PyOther \<Rightarrow> neutral_half
      | PyStr text \<Rightarrow>
          (if text = [] then neutral_half
           else (case analyze_text_try self text of
                   Inr result \<Rightarrow> result
                 | Inl e \<Rightarrow> neutral_half)))"

section \<open>The record set\<close>

text \<open>
  A pandas DataFrame of reviews: the names of its columns and its rows, each with its index
  label (the row identity). A row has one typed field for each column the code reads; the
  field of a column that the frame does not have is not read. A \<open>Date\<close> cell is a string
  (object column), a timestamp in nanoseconds, or NaT; the column has dtype datetime64 when
  no cell of it is a string.
\<close>

datatype date_cell = DateStr string | Timestamp int | NaT

record review =
  Date :: date_cell
  Rating :: "real option"
  Version :: "string option"
  Title :: text_cell
  Content :: text_cell
  sentiment_label :: "string option"
  sentiment_score :: "real option"

record dataframe =
  columns :: "string list"
  rows :: "(int \<times> review) list"

definition len :: "dataframe \<Rightarrow> nat" where
  "len df = length (rows df)"

text \<open>\<open>df.empty\<close>: some axis of the frame has length 0.\<close>

definition empty_df :: "dataframe \<Rightarrow> bool" where
  "empty_df df = (rows df = [] \<or> columns df = [])"

definition add_column :: "string \<Rightarrow> string list \<Rightarrow> string list" where
  "add_column c cols = (if c \<in> set cols then cols else cols @ [c])"

text \<open>
  \<open>df.at[index, column] = value\<close>: a column that does not exist yet is created, NaN in every
  row, and the value is stored in every row that carries the label \<open>index\<close>.
\<close>

definition at_set_label :: "int \<Rightarrow> string \<Rightarrow> dataframe \<Rightarrow> dataframe" where
  "at_set_label index v df =
     (let rs = (if ''sentiment_label'' \<in> set (columns df) then rows df
                else map (\<lambda>(i, r). (i, r\<lparr>sentiment_label := None\<rparr>)) (rows df))
      in \<lparr>columns = add_column ''sentiment_label'' (columns df),
          rows = map (\<lambda>(i, r). if i = index then (i, r\<lparr>sentiment_label := Some v\<rparr>) else (i, r)) rs\<rparr>)"

definition at_set_score :: "int \<Rightarrow> real \<Rightarrow> dataframe \<Rightarrow> dataframe" where
  "at_set_score index v df =
     (let rs = (if ''sentiment_score'' \<in> set (columns df) then rows df
                else map (\<lambda>(i, r). (i, r\<lparr>sentiment_score := None\<rparr>)) (rows df))
      in \<lparr>columns = add_column ''sentiment_score'' (columns df),
          rows = map (\<lambda>(i, r). if i = index then (i, r\<lparr>sentiment_score := Some v\<rparr>) else (i, r)) rs\<rparr>)"

subsection \<open>analyze\_dataframe\<close>

text \<open>
  The function is modelled with its default column names \<open>Title\<close> and \<open>Content\<close>, as every
  caller in the repository calls it. \<open>combined_text\<close> is the first half of the inner
  function \<open>analyze_row\<close>: title, a full stop and a space, then the content.
\<close>

definition combined_text :: "string list \<Rightarrow> review \<Rightarrow> exn + string" where
  "combined_text cols row =
     (case (if ''Title'' \<in> set cols \<and> notna (Title row)
            then (case str (Title row) of Inl e \<Rightarrow> Inl e | Inr s \<Rightarrow> Inr (s @ ''. ''))
            else Inr [])
      of Inl e \<Rightarrow> Inl e
       | Inr t \<Rightarrow>
           (if ''Content'' \<in> set cols \<and> notna (Content row)
            then (case str (Content row) of Inl e \<Rightarrow> Inl e | Inr s \<Rightarrow> Inr (t @ s))
            else Inr t))"

definition analyze_row :: "SentimentAnalyzer \<Rightarrow> string list \<Rightarrow> review \<Rightarrow> exn + sentiment" where
  "analyze_row self cols row =
     (case combined_text cols row of
        Inl e \<Rightarrow> Inl e
      | Inr text \<Rightarrow>
          (if strip text = [] then Inr neutral_half
           else Inr (analyze_text self (PyStr text))))"

text \<open>
  What the loop over \<open>as_completed\<close> appends for one future: the result of the future with
  its index, or the neutral result when \<open>future.result()\<close> raises.
\<close>

definition collect :: "int \<times> (exn + sentiment) \<Rightarrow> int \<times> sentiment" where
  "collect f = (case f of (index, Inr result) \<Rightarrow> (index, result)
                        | (index, Inl e) \<Rightarrow> (index, neutral_half))"

definition attach :: "int \<times> sentiment \<Rightarrow> dataframe \<Rightarrow> dataframe" where
  "attach p result_df =
     (case p of (index, result) \<Rightarrow>
        at_set_score index (score result) (at_set_label index (label result) result_df))"

text \<open>
  The worker pool completes the submitted futures in an order the code does not control:
  \<open>completed\<close> lists the positions of the submitted rows in the order \<open>as_completed\<close>
  yields their futures, a permutation of \<open>[0..<len df]\<close>.
\<close>

definition analyze_dataframe :: "SentimentAnalyzer \<Rightarrow> nat list \<Rightarrow> dataframe \<Rightarrow> dataframe" where
  "analyze_dataframe self completed df =
     (if empty_df df then df
      else
        let future_to_index = map (\<lambda>(i, row). (i, analyze_row self (columns df) row)) (rows df);
            results = map (\<lambda>k. collect (future_to_index ! k)) completed
        in fold attach results df)"

text \<open>What the final loop leaves in a row: the two sentiment cells of one result.\<close>

definition attached :: "sentiment \<Rightarrow> review \<Rightarrow> review" where
  "attached s r = r\<lparr>sentiment_label := Some (label s), sentiment_score := Some (score s)\<rparr>"

definition cleared :: "string list \<Rightarrow> review \<Rightarrow> review" where
  "cleared cols r =
     (let r1 = (if ''sentiment_label'' \<in> set cols then r else r\<lparr>sentiment_label := None\<rparr>)
      in if ''sentiment_score'' \<in> set cols then r1 else r1\<lparr>sentiment_score := None\<rparr>)"

definition row_result :: "SentimentAnalyzer \<Rightarrow> string list \<Rightarrow> review \<Rightarrow> sentiment" where
  "row_result self cols row = snd (collect (0, analyze_row self cols row))"



subsection \<open>Example analyzers and frames\<close>

text \<open>
  A lexicon that scores one text, fails on another and is neutral on the rest; a model
  whose label vocabulary is \<open>LABEL_0\<close>, \<open>LABEL_1\<close>, as many hosted classifiers have it.
\<close>

definition vader_example :: "string \<Rightarrow> exn + real" where
  "vader_example text =
     (if text = ''Great. I love it'' then Inr 0.8
      else if text = ''crash'' then Inl (Exception ''lexicon failure'')
      else Inr 0)"

definition lexicon_example :: SentimentAnalyzer where
  "lexicon_example =
     \<lparr>use_transformers = False, neutral_threshold = 0.15,
      analyzer = SentimentIntensityAnalyzer vader_example\<rparr>"



definition review_example :: "text_cell \<Rightarrow> text_cell \<Rightarrow> review" where
  "review_example t c =
     \<lparr>Date = Timestamp 0, Rating = Some 5, Version = Some ''1.1.0'', Title = t, Content = c,
      sentiment_label = None, sentiment_score = None\<rparr>"

definition reviews_example :: dataframe where
  "reviews_example =
     \<lparr>columns = [''Rating'', ''Date'', ''Version'', ''Title'', ''Content''],
      rows = [(0, review_example (Text ''Great'') (Text ''I love it'')),
              (4, review_example NA (Text ''crash'')),
              (7, review_example (Object (Inl (Exception ''no string form''))) (Text ''fine''))]\<rparr>"



section \<open>Numbers and dates of the analysis\<close>

text \<open>
  A Python float is a real number, an infinity or NaN. Finite arithmetic is exact: the
  rounding of binary floating point is not modelled. The comparisons are those of Python:
  every comparison with NaN is false.
\<close>

datatype float = Fin real | PInf | NInf | NaN








text \<open>\<open>Series.mean()\<close>: the mean of the cells that are not NaN, NaN when there is none.\<close>

definition mean :: "real option list \<Rightarrow> float" where
  "mean cells =
     (let vals = [v. Some v \<leftarrow> cells]
      in if vals = [] then NaN else Fin (sum_list vals / real (length vals)))"

text \<open>
  Timestamps count nanoseconds. \<open>pd.to_datetime(column, errors='coerce')\<close> parses the
  strings of the column with pandas' parser, here the parameter \<open>parse\<close>; what it cannot
  parse becomes NaT.
\<close>

definition ns_per_day :: int where
  "ns_per_day = 86400000000000"

fun is_datetime_cell :: "date_cell \<Rightarrow> bool" where
  "is_datetime_cell (DateStr s) = False"
| "is_datetime_cell _ = True"

definition is_datetime64_dtype :: "dataframe \<Rightarrow> bool" where
  "is_datetime64_dtype df = list_all (\<lambda>(i, r). is_datetime_cell (Date r)) (rows df)"

fun to_datetime_cell :: "(string \<Rightarrow> int option) \<Rightarrow> date_cell \<Rightarrow> date_cell" where
  "to_datetime_cell parse (DateStr s) = (case parse s of Some t \<Rightarrow> Timestamp t | None \<Rightarrow> NaT)"
| "to_datetime_cell parse c = c"

text \<open>\<open>df['Date'] = pd.to_datetime(df['Date'], errors='coerce')\<close>: the frame with the column replaced.\<close>

definition to_datetime :: "(string \<Rightarrow> int option) \<Rightarrow> dataframe \<Rightarrow> dataframe" where
  "to_datetime parse df =
     df\<lparr>rows := map (\<lambda>(i, r). (i, r\<lparr>Date := to_datetime_cell parse (Date r)\<rparr>)) (rows df)\<rparr>"

text \<open>\<open>df.dropna(subset=['Date'])\<close>: a new frame without the rows whose date is NaT.\<close>

definition dropna_Date :: "dataframe \<Rightarrow> dataframe" where
  "dropna_Date df = df\<lparr>rows := filter (\<lambda>(i, r). Date r \<noteq> NaT) (rows df)\<rparr>"


fun minimum :: "int list \<Rightarrow> int option" where
  "minimum [] = None"
| "minimum (x # xs) = Some (fold min xs x)"

fun maximum :: "int list \<Rightarrow> int option" where
  "maximum [] = None"
| "maximum (x # xs) = Some (fold max xs x)"

text \<open>
  \<open>df.groupby(pd.Grouper(key='Date', freq=freq))\<close>: \<open>freq\<close> gives the ordinal of the
  bucket of a timestamp (for \<open>'D'\<close>, the day); the groups are the buckets from the first to
  the last one that holds a row, in order, the empty ones included; rows without a
  timestamp are in no group.
\<close>

definition freq_D :: "int \<Rightarrow> int" where
  "freq_D t = t div ns_per_day"

definition grouper :: "(int \<Rightarrow> int) \<Rightarrow> dataframe \<Rightarrow> (int \<times> review list) list" where
  "grouper freq df =
     (let keyed = [(freq t, r). (i, r) \<leftarrow> rows df, Timestamp t \<leftarrow> [Date r]]
      in case (minimum (map fst keyed), maximum (map fst keyed)) of
           (Some lo, Some hi) \<Rightarrow> map (\<lambda>b. (b, [r. (k, r) \<leftarrow> keyed, k = b])) [lo..hi]
         | _ \<Rightarrow> [])"

text \<open>\<open>idxmax\<close> and \<open>idxmin\<close>: the first key with the largest (smallest) value.\<close>

fun idxmax :: "('k \<times> 'v::linorder) list \<Rightarrow> ('k \<times> 'v) option" where
  "idxmax [] = None"
| "idxmax (p # ps) = Some (fold (\<lambda>q best. if snd q > snd best then q else best) ps p)"

fun idxmin :: "('k \<times> 'v::linorder) list \<Rightarrow> ('k \<times> 'v) option" where
  "idxmin [] = None"
| "idxmin (p # ps) = Some (fold (\<lambda>q best. if snd q < snd best then q else best) ps p)"

text \<open>
  \<open>Series.value_counts()\<close>: the values that are not NaN, each with its count, the most
  frequent first and the first seen first among equally frequent ones.
\<close>

definition value_counts :: "'a option list \<Rightarrow> ('a \<times> nat) list" where
  "value_counts cells =
     (let vals = [v. Some v \<leftarrow> cells]
      in sort_key (\<lambda>(v, c). - int c) (map (\<lambda>v. (v, count_list vals v)) (rev (remdups (rev vals)))))"


section \<open>data\_analyzer.py: the statistics of one period\<close>

text \<open>
  A function that assigns into the frame it was given (\<open>df['Date'] = ...\<close>) returns, first,
  the caller's frame as the call leaves it. The results are the dictionaries of the source
  as records; \<open>None\<close> is the dictionary that holds only an empty mapping. A date formatted
  with \<open>strftime('%Y-%m-%d')\<close> is kept as the ordinal of its bucket or day.
\<close>

record volume =
  review_counts :: "(int \<times> nat) list"
  total_reviews :: nat
  average_daily_reviews :: real
  peak_date :: int
  peak_count :: nat

definition analyze_review_volume ::
  "(string \<Rightarrow> int option) \<Rightarrow> (int \<Rightarrow> int) \<Rightarrow> dataframe \<Rightarrow> dataframe \<times> (exn + volume option)" where
  "analyze_review_volume parse freq df =
     (if empty_df df then (df, Inr None)
      else if ''Date'' \<notin> set (columns df) then (df, Inl (KeyError ''Date''))
      else
        let (caller_df, df) =
              (if \<not> is_datetime64_dtype df
               then (to_datetime parse df, dropna_Date (to_datetime parse df))
               else (df, df));
            counts = map (\<lambda>(b, g). (b, length g)) (grouper freq df)
        in case idxmax counts of
             None \<Rightarrow> (caller_df, Inl (ValueError ''attempt to get argmax of an empty sequence''))
           | Some (peak, peak_n) \<Rightarrow>
               (caller_df,
                Inr (Some \<lparr>review_counts = counts,
                           total_reviews = sum_list (map snd counts),
                           average_daily_reviews = real (sum_list (map snd counts)) / real (length counts),
                           peak_date = peak,
                           peak_count = peak_n\<rparr>)))"

text \<open>
  \<open>DataFrame.corr()\<close> of two columns: Pearson's coefficient over the rows where both cells
  are numbers; NaN when there is no such row or one of the two has no variance.
\<close>

definition corr :: "(real option \<times> real option) list \<Rightarrow> float" where
  "corr cells =
     (let ps = [(x, y). (Some x, Some y) \<leftarrow> cells];
          n = real (length ps);
          mx = sum_list (map fst ps) / n;
          my = sum_list (map snd ps) / n;
          sxx = (\<Sum>(x, y) \<leftarrow> ps. (x - mx) ^ 2);
          syy = (\<Sum>(x, y) \<leftarrow> ps. (y - my) ^ 2);
          sxy = (\<Sum>(x, y) \<leftarrow> ps. (x - mx) * (y - my))
      in if ps = [] \<or> sxx * syy = 0 then NaN else Fin (sxy / sqrt (sxx * syy)))"

text \<open>\<open>Series.std()\<close>: the sample standard deviation, NaN below two values.\<close>

definition std :: "real option list \<Rightarrow> float" where
  "std cells =
     (let vals = [v. Some v \<leftarrow> cells];
          n = real (length vals);
          m = sum_list vals / n
      in if length vals < 2 then NaN else Fin (sqrt ((\<Sum>v \<leftarrow> vals. (v - m) ^ 2) / (n - 1))))"

text \<open>\<open>dict.get(key, 0)\<close> on the dictionary of counts.\<close>

definition get_count :: "('a \<times> nat) list \<Rightarrow> 'a \<Rightarrow> nat" where
  "get_count counts k = (case map_of counts k of Some c \<Rightarrow> c | None \<Rightarrow> 0)"

record distribution =
  sentiment_distribution :: "(string \<times> nat) list"
  positive_ratio :: real
  negative_ratio :: real
  neutral_ratio :: real
  average_sentiment_score :: float
  sentiment_score_std :: float
  rating_sentiment_correlation :: float

definition analyze_sentiment_distribution :: "dataframe \<Rightarrow> exn + distribution option" where
  "analyze_sentiment_distribution df =
     (if empty_df df \<or> ''sentiment_label'' \<notin> set (columns df) then Inr None
      else
        let sentiment_counts = value_counts (map (\<lambda>(i, r). sentiment_label r) (rows df));
            positive_ratio = (if len df > 0 then real (get_count sentiment_counts ''positive'') / real (len df) else 0);
            negative_ratio = (if len df > 0 then real (get_count sentiment_counts ''negative'') / real (len df) else 0);
            neutral_ratio = (if len df > 0 then real (get_count sentiment_counts ''neutral'') / real (len df) else 0);
            scores = map (\<lambda>(i, r). sentiment_score r) (rows df);
            avg_sentiment_score = (if ''sentiment_score'' \<in> set (columns df) then mean scores else Fin 0);
            sentiment_score_std = (if ''sentiment_score'' \<in> set (columns df) then std scores else Fin 0)
        in case (if ''Rating'' \<in> set (columns df) \<and> len df > 1
                 then (if ''sentiment_score'' \<in> set (columns df)
                       then Inr (corr (map (\<lambda>(i, r). (Rating r, sentiment_score r)) (rows df)))
                       else Inl (KeyError ''sentiment_score''))
                 else Inr (Fin 0))
           of Inl e \<Rightarrow> Inl e
            | Inr rating_sentiment_corr \<Rightarrow>
                Inr (Some \<lparr>sentiment_distribution = sentiment_counts,
                           positive_ratio = positive_ratio,
                           negative_ratio = negative_ratio,
                           neutral_ratio = neutral_ratio,
                           average_sentiment_score = avg_sentiment_score,
                           sentiment_score_std = sentiment_score_std,
                           rating_sentiment_correlation = rating_sentiment_corr\<rparr>))"

text \<open>
  \<open>np.polyfit(x, y, 1)\<close>: the line of least squares through the points, first its slope;
  it raises on an empty vector.
\<close>

definition polyfit :: "real list \<Rightarrow> real list \<Rightarrow> exn + real \<times> real" where
  "polyfit x y =
     (if x = [] then Inl (TypeError ''expected non-empty vector for x'')
      else
        let n = real (length x);
            mx = sum_list x / n;
            my = sum_list y / n;
            sxx = (\<Sum>a \<leftarrow> x. (a - mx) ^ 2);
            sxy = (\<Sum>(a, b) \<leftarrow> zip x y. (a - mx) * (b - my))
        in Inr (sxy / sxx, my - sxy / sxx * mx))"

text \<open>The three directions of the source: rising, falling, stable.\<close>

datatype direction = Up | Down | Stable

record trend =
  sentiment_trend :: "(int \<times> real) list"
  most_positive_date :: "int option"
  most_positive_score :: real
  most_negative_date :: "int option"
  most_negative_score :: real
  trend_slope :: real
  trend_direction :: direction

text \<open>The mean score of each bucket (NaN for a bucket without a score), in bucket order.\<close>

definition bucket_means :: "(int \<Rightarrow> int) \<Rightarrow> dataframe \<Rightarrow> (int \<times> float) list" where
  "bucket_means freq df = map (\<lambda>(b, g). (b, mean (map sentiment_score g))) (grouper freq df)"

text \<open>\<open>x[valid_indices]\<close> and \<open>y[valid_indices]\<close>: bucket index and mean of the buckets that have one.\<close>

definition valid_points :: "float list \<Rightarrow> (real \<times> real) list" where
  "valid_points y = [(real k, v). (k, Fin v) \<leftarrow> zip [0..<length y] y]"

definition slope_of :: "float list \<Rightarrow> real" where
  "slope_of y =
     (if length y > 1 then
        (if length (valid_points y) > 1 then
           (case polyfit (map fst (valid_points y)) (map snd (valid_points y)) of
              Inr (slope, intercept) \<Rightarrow> slope
            | Inl e \<Rightarrow> 0)
         else 0)
      else 0)"

definition direction_of :: "real \<Rightarrow> direction" where
  "direction_of slope = (if slope > 0.01 then Up else if slope < - 0.01 then Down else Stable)"

definition analyze_sentiment_trend ::
  "(string \<Rightarrow> int option) \<Rightarrow> (int \<Rightarrow> int) \<Rightarrow> dataframe \<Rightarrow> dataframe \<times> (exn + trend option)" where
  "analyze_sentiment_trend parse freq df =
     (if empty_df df \<or> ''sentiment_label'' \<notin> set (columns df) then (df, Inr None)
      else if ''Date'' \<notin> set (columns df) then (df, Inl (KeyError ''Date''))
      else
        let (caller_df, df) =
              (if \<not> is_datetime64_dtype df
               then (to_datetime parse df, dropna_Date (to_datetime parse df))
               else (df, df))
        in if ''sentiment_score'' \<notin> set (columns df)
           then (caller_df, Inl (KeyError ''Column not found: sentiment_score''))
           else
             let sentiment_trend = bucket_means freq df;
                 sentiment_trend_dict = [(b, v). (b, Fin v) \<leftarrow> sentiment_trend];
                 slope = slope_of (map snd sentiment_trend)
             in if sentiment_trend = []
                then (caller_df,
                      Inr (Some \<lparr>sentiment_trend = sentiment_trend_dict,
                                 most_positive_date = None, most_positive_score = 0,
                                 most_negative_date = None, most_negative_score = 0,
                                 trend_slope = slope, trend_direction = direction_of slope\<rparr>))
                else
                  (case (idxmax sentiment_trend_dict, idxmin sentiment_trend_dict) of
                     (Some (hi, hi_v), Some (lo, lo_v)) \<Rightarrow>
                       (caller_df,
                        Inr (Some \<lparr>sentiment_trend = sentiment_trend_dict,
                                   most_positive_date = Some hi, most_positive_score = hi_v,
                                   most_negative_date = Some lo, most_negative_score = lo_v,
                                   trend_slope = slope, trend_direction = direction_of slope\<rparr>))
                   | _ \<Rightarrow> (caller_df, Inl (ValueError ''attempt to get argmax of an empty sequence''))))"

text \<open>\<open>str.split()\<close>: the maximal runs of characters that are not white space.\<close>

fun split_acc :: "string \<Rightarrow> string \<Rightarrow> string list" where
  "split_acc [] w = (if w = [] then [] else [rev w])"
| "split_acc (c # cs) w =
     (if isspace c then (if w = [] then split_acc cs [] else rev w # split_acc cs [])
      else split_acc cs (c # w))"

definition split :: "string \<Rightarrow> string list" where
  "split s = split_acc s []"

definition english_stopwords :: "string list" where
  "english_stopwords =
     [''a'', ''an'', ''the'', ''and'', ''or'', ''but'', ''if'', ''because'', ''as'', ''what'',
      ''when'', ''where'', ''how'', ''to'', ''in'', ''is'', ''it'', ''of'', ''for'', ''with'',
      ''this'', ''that'', ''be'', ''on'', ''are'', ''was'', ''were'', ''has'', ''have'',
      ''had'', ''not'', ''by'', ''at'', ''from'', ''so'', ''some'', ''other'', ''than'',
      ''then'', ''can'', ''could'', ''will'', ''would'', ''my'', ''your'', ''his'', ''her'',
      ''their'', ''our'', ''its'', ''i'', ''you'', ''he'', ''she'', ''they'', ''we'', ''who'',
      ''whom'', ''whose'', ''which'', ''there'', ''here'', ''all'', ''any'', ''each'', ''more'',
      ''most'', ''need'', ''im'', ''just'', ''dont'', ''get'', ''also'', ''ill'', ''very'']"

text \<open>The text of one row in \<open>analyze_topics\<close>: title, a space, content, lower-cased.\<close>

definition topic_text :: "string list \<Rightarrow> review \<Rightarrow> exn + string" where
  "topic_text cols row =
     (case (if ''Title'' \<in> set cols \<and> notna (Title row)
            then (case str (Title row) of Inl e \<Rightarrow> Inl e | Inr s \<Rightarrow> Inr (s @ '' ''))
            else Inr [])
      of Inl e \<Rightarrow> Inl e
       | Inr t \<Rightarrow>
           (if ''Content'' \<in> set cols \<and> notna (Content row)
            then (case str (Content row) of Inl e \<Rightarrow> Inl e | Inr s \<Rightarrow> Inr (lower (t @ s)))
            else Inr (lower t)))"

text \<open>The loop over the rows: the texts so far, or the first exception.\<close>

fun all_texts :: "string list \<Rightarrow> review list \<Rightarrow> exn + string list" where
  "all_texts cols [] = Inr []"
| "all_texts cols (row # rest) =
     (case topic_text cols row of
        Inl e \<Rightarrow> Inl e
      | Inr text \<Rightarrow> (case all_texts cols rest of Inl e \<Rightarrow> Inl e | Inr texts \<Rightarrow> Inr (text # texts)))"

text \<open>
  \<open>Counter(words).most_common(top_n)\<close>: the words by falling count, the first seen first
  among equally frequent ones, cut after \<open>top_n\<close>.
\<close>

definition most_common :: "nat \<Rightarrow> string list \<Rightarrow> (string \<times> nat) list" where
  "most_common top_n words =
     take top_n (sort_key (\<lambda>(w, c). - int c)
                   (map (\<lambda>w. (w, count_list words w)) (rev (remdups (rev words)))))"

definition analyze_topics :: "dataframe \<Rightarrow> nat \<Rightarrow> exn + (string \<times> nat) list option" where
  "analyze_topics df top_n =
     (if empty_df df then Inr None
      else
        case all_texts (columns df) (map snd (rows df)) of
          Inl e \<Rightarrow> Inl e
        | Inr texts \<Rightarrow>
            let all_words = concat (map (\<lambda>text. [word \<leftarrow> split text. word \<notin> set english_stopwords \<and> length word > 2]) texts)
            in Inr (Some (most_common top_n all_words)))"

text \<open>
  The words of the specification for the slope: a slope of least squares of a list of
  points is the slope of a line whose sum of squared errors no other line undercuts.
\<close>

definition squared_error :: "(real \<times> real) list \<Rightarrow> real \<Rightarrow> real \<Rightarrow> real" where
  "squared_error pts a b = (\<Sum>(x, y) \<leftarrow> pts. (y - (a * x + b)) ^ 2)"

definition least_squares_slope :: "(real \<times> real) list \<Rightarrow> real \<Rightarrow> bool" where
  "least_squares_slope pts m = (\<exists>c. \<forall>a b. squared_error pts m c \<le> squared_error pts a b)"


section \<open>data\_analyzer.py: the comparison of two periods\<close>

text \<open>
  The result of \<open>compare_time_periods\<close> is a dictionary of dictionaries whose keys are the
  two period names and \<open>change\<close> (\<open>version_changed\<close> in the version section). They are
  maps built in the order of the dictionary literal, so a later key replaces an equal
  earlier one. The statements of the summary are constructors: the Chinese sentences of the
  source with the numbers they print.
\<close>

record period_dates =
  start_date :: int
  end_date :: int
  days :: int

datatype volume_entry = Period_volume nat real | Volume_change float float

datatype rating_entry = Period_rating float | Rating_change float

datatype sentiment_entry = Period_sentiment real real real float | Sentiment_change real real real float

datatype version_entry = Main_version "string option" | Version_changed bool

datatype bullet =
    Volume_increased float
  | Volume_decreased float
  | Rating_improved float
  | Rating_declined float
  | Sentiment_positive
  | Sentiment_negative
  | Version_updated "string option" "string option"
  | No_significant_difference

record comparison =
  time_periods :: "string \<rightharpoonup> period_dates"
  review_volume :: "string \<rightharpoonup> volume_entry"
  rating :: "string \<rightharpoonup> rating_entry"
  sentiment :: "string \<rightharpoonup> sentiment_entry"
  version :: "string \<rightharpoonup> version_entry"
  summary :: "bullet list"
























text \<open>The frame as lines 271 to 274 leave it: the dates converted where the column held strings.\<close>

definition converted :: "(string \<Rightarrow> int option) \<Rightarrow> dataframe \<Rightarrow> dataframe" where
  "converted parse df = (if \<not> is_datetime64_dtype df then to_datetime parse df else df)"


subsection \<open>Example periods\<close>

text \<open>
  Two classified periods with timestamps: two reviews on the first and the third day, and
  three reviews within one later day, most of them of another version.
\<close>

definition on_day :: "int \<Rightarrow> int" where
  "on_day d = d * ns_per_day"

definition classified :: "int \<Rightarrow> real \<Rightarrow> string \<Rightarrow> string \<Rightarrow> real \<Rightarrow> review" where
  "classified t stars v l s =
     \<lparr>Date = Timestamp t, Rating = Some stars, Version = Some v,
      Title = Text ''title'', Content = Text ''content'',
      sentiment_label = Some l, sentiment_score = Some s\<rparr>"

definition classified_columns :: "string list" where
  "classified_columns =
     [''Rating'', ''Date'', ''Version'', ''Title'', ''Content'', ''sentiment_label'', ''sentiment_score'']"

definition period1_example :: dataframe where
  "period1_example =
     \<lparr>columns = classified_columns,
      rows = [(0, classified (on_day 0) 5 ''1.1.0'' ''positive'' 0.8),
              (1, classified (on_day 2) 4 ''1.1.0'' ''neutral'' 0)]\<rparr>"

definition period2_example :: dataframe where
  "period2_example =
     \<lparr>columns = classified_columns,
      rows = [(2, classified (on_day 10) 2 ''1.1.1'' ''negative'' (- 0.6)),
              (3, classified (on_day 10 + 3600000000000) 3 ''1.1.1'' ''neutral'' 0),
              (4, classified (on_day 10 + 7200000000000) 4 ''1.1.0'' ''positive'' 0.6)]\<rparr>"

text \<open>A parser for the examples: it knows one date, the first day.\<close>

definition parse_example :: "string \<Rightarrow> int option" where
  "parse_example s = (if s = ''1970-01-01'' then Some 0 else None)"

text \<open>
  The first period as a loader that does not parse dates hands it over: the dates are
  strings, one of them no date. A period without reviews. A period that has labels and
  ratings but no score column.
\<close>

definition unparsed_example :: dataframe where
  "unparsed_example =
     \<lparr>columns = classified_columns,
      rows = [(0, (classified 0 5 ''1.1.0'' ''positive'' 0.8)\<lparr>Date := DateStr ''1970-01-01''\<rparr>),
              (1, (classified 0 4 ''1.1.0'' ''neutral'' 0)\<lparr>Date := DateStr ''soon''\<rparr>)]\<rparr>"

definition no_reviews_example :: dataframe where
  "no_reviews_example = \<lparr>columns = classified_columns, rows = []\<rparr>"

definition unscored_example :: dataframe where
  "unscored_example =
     \<lparr>columns = [''Rating'', ''Date'', ''sentiment_label''],
      rows = [(0, classified (on_day 0) 5 ''1.1.0'' ''positive'' 0),
              (1, classified (on_day 1) 2 ''1.1.0'' ''negative'' 0)]\<rparr>"


section \<open>api.py: the comparison endpoint\<close>

text \<open>
  The endpoint receives its four collaborators by dependency injection; each is a record of
  its methods, and a method returns its value or raises. The response is the warning
  dictionary (with the number of reviews of each period) or the full one; an exception
  becomes an \<open>HTTPException\<close>: status 400 for a \<open>ValueError\<close>, 500 for any other.
\<close>

record ComparisonRequest =
  period1_start :: string
  period1_end :: string
  period2_start :: string
  period2_end :: string
  period1_name :: "string option"
  period2_name :: "string option"
  output_format :: "string option"

record 'stats DataProcessor =
  load_data :: "exn + dataframe"
  filter_by_date_range :: "string \<Rightarrow> string \<Rightarrow> exn + dataframe"
  get_data_stats :: "dataframe \<Rightarrow> exn + 'stats"

record ('vol, 'dist, 'trd, 'top, 'cmp) DataAnalyzer =
  call_analyze_review_volume :: "dataframe \<Rightarrow> exn + 'vol"
  call_analyze_sentiment_distribution :: "dataframe \<Rightarrow> exn + 'dist"
  call_analyze_sentiment_trend :: "dataframe \<Rightarrow> exn + 'trd"
  call_analyze_topics :: "dataframe \<Rightarrow> exn + 'top"
  call_compare_time_periods ::
    "dataframe \<Rightarrow> dataframe \<Rightarrow> string option \<Rightarrow> string option \<Rightarrow> exn + 'cmp"

record 'cmp ReportGenerator =
  generate_json_report :: "'cmp \<Rightarrow> string option \<Rightarrow> string option \<Rightarrow> exn + string"
  generate_text_report :: "'cmp \<Rightarrow> string option \<Rightarrow> string option \<Rightarrow> exn + string"
  generate_html_report ::
    "'cmp \<Rightarrow> dataframe \<Rightarrow> dataframe \<Rightarrow> string option \<Rightarrow> string option \<Rightarrow> exn + string"

record ('stats, 'vol, 'dist, 'trd, 'top) period_info =
  info_name :: "string option"
  info_start_date :: string
  info_end_date :: string
  info_review_count :: nat
  info_stats :: 'stats
  info_volume :: 'vol
  info_sentiment :: 'dist
  info_trend :: 'trd
  info_topics :: 'top

datatype ('stats, 'vol, 'dist, 'trd, 'top, 'cmp) response =
    Warning_response nat nat
  | Success_response "('stats, 'vol, 'dist, 'trd, 'top) period_info"
      "('stats, 'vol, 'dist, 'trd, 'top) period_info" 'cmp "string option"

datatype http_error = HTTPException nat string

text \<open>The two \<open>except\<close> clauses of the endpoint.\<close>

fun http_error_of :: "exn \<Rightarrow> http_error" where
  "http_error_of (ValueError m) = HTTPException 400 m"
| "http_error_of (KeyError m) = HTTPException 500 m"
| "http_error_of (TypeError m) = HTTPException 500 m"
| "http_error_of (Exception m) = HTTPException 500 m"

text \<open>One statement after the other inside the \<open>try\<close>: the first exception ends the block.\<close>

definition and_then :: "exn + 'a \<Rightarrow> ('a \<Rightarrow> exn + 'b) \<Rightarrow> exn + 'b" where
  "and_then r f = (case r of Inl e \<Rightarrow> Inl e | Inr v \<Rightarrow> f v)"

text \<open>Step 6: the report in the requested format; \<open>None.lower()\<close> raises.\<close>

definition generate_report ::
  "ComparisonRequest \<Rightarrow> 'cmp ReportGenerator \<Rightarrow> 'cmp \<Rightarrow> dataframe \<Rightarrow> dataframe
     \<Rightarrow> exn + string option" where
  "generate_report request report_generator comparison_result df1 df2 =
     (case output_format request of
        None \<Rightarrow> Inl (Exception ''NoneType object has no attribute lower'')
      | Some fmt \<Rightarrow>
          (if lower fmt = ''json'' then
             and_then (generate_json_report report_generator comparison_result
                         (period1_name request) (period2_name request))
               (\<lambda>path. Inr (Some path))
           else if lower fmt = ''text'' then
             and_then (generate_text_report report_generator comparison_result
                         (period1_name request) (period2_name request))
               (\<lambda>path. Inr (Some path))
           else if lower fmt = ''html'' then
             and_then (generate_html_report report_generator comparison_result df1 df2
                         (period1_name request) (period2_name request))
               (\<lambda>path. Inr (Some path))
           else Inr None))"

text \<open>Steps 3 to 7, for two periods that passed the check of their size.\<close>

definition full_analysis ::
  "ComparisonRequest \<Rightarrow> 'stats DataProcessor \<Rightarrow> (dataframe \<Rightarrow> exn + dataframe)
     \<Rightarrow> ('vol, 'dist, 'trd, 'top, 'cmp) DataAnalyzer \<Rightarrow> 'cmp ReportGenerator
     \<Rightarrow> dataframe \<Rightarrow> dataframe \<Rightarrow> exn + ('stats, 'vol, 'dist, 'trd, 'top, 'cmp) response" where
  "full_analysis request data_processor call_analyze_dataframe data_analyzer report_generator
     df_period1 df_period2 =
     and_then (call_analyze_dataframe df_period1) (\<lambda>df1.
     and_then (call_analyze_dataframe df_period2) (\<lambda>df2.
     and_then (get_data_stats data_processor df1) (\<lambda>period1_stats.
     and_then (get_data_stats data_processor df2) (\<lambda>period2_stats.
     and_then (call_analyze_review_volume data_analyzer df1) (\<lambda>period1_volume.
     and_then (call_analyze_review_volume data_analyzer df2) (\<lambda>period2_volume.
     and_then (call_analyze_sentiment_distribution data_analyzer df1) (\<lambda>period1_sentiment.
     and_then (call_analyze_sentiment_distribution data_analyzer df2) (\<lambda>period2_sentiment.
     and_then (call_analyze_sentiment_trend data_analyzer df1) (\<lambda>period1_trend.
     and_then (call_analyze_sentiment_trend data_analyzer df2) (\<lambda>period2_trend.
     and_then (call_analyze_topics data_analyzer df1) (\<lambda>period1_topics.
     and_then (call_analyze_topics data_analyzer df2) (\<lambda>period2_topics.
     and_then (call_compare_time_periods data_analyzer df1 df2
                 (period1_name request) (period2_name request)) (\<lambda>comparison_result.
     and_then (generate_report request report_generator comparison_result df1 df2) (\<lambda>report_path.
       Inr (Success_response
              \<lparr>info_name = period1_name request, info_start_date = period1_start request,
               info_end_date = period1_end request, info_review_count = len df_period1,
               info_stats = period1_stats, info_volume = period1_volume,
               info_sentiment = period1_sentiment, info_trend = period1_trend,
               info_topics = period1_topics\<rparr>
              \<lparr>info_name = period2_name request, info_start_date = period2_start request,
               info_end_date = period2_end request, info_review_count = len df_period2,
               info_stats = period2_stats, info_volume = period2_volume,
               info_sentiment = period2_sentiment, info_trend = period2_trend,
               info_topics = period2_topics\<rparr>
              comparison_result report_path)))))))))))))))"

definition compare_periods ::
  "ComparisonRequest \<Rightarrow> 'stats DataProcessor \<Rightarrow> (dataframe \<Rightarrow> exn + dataframe)
     \<Rightarrow> ('vol, 'dist, 'trd, 'top, 'cmp) DataAnalyzer \<Rightarrow> 'cmp ReportGenerator
     \<Rightarrow> http_error + ('stats, 'vol, 'dist, 'trd, 'top, 'cmp) response" where
  "compare_periods request data_processor call_analyze_dataframe data_analyzer report_generator =
     (case
        and_then (load_data data_processor) (\<lambda>df.
        and_then (filter_by_date_range data_processor (period1_start request) (period1_end request))
          (\<lambda>df_period1.
        and_then (filter_by_date_range data_processor (period2_start request) (period2_end request))
          (\<lambda>df_period2.
          if len df_period1 < 10 \<or> len df_period2 < 10
          then Inr (Warning_response (len df_period1) (len df_period2))
          else full_analysis request data_processor call_analyze_dataframe data_analyzer
                 report_generator df_period1 df_period2)))
      of Inl e \<Rightarrow> Inl (http_error_of e)
       | Inr response \<Rightarrow> Inr response)"

subsection \<open>Example: two periods of five reviews\<close>

definition five_reviews_example :: dataframe where
  "five_reviews_example =
     \<lparr>columns = [''Rating'', ''Date'', ''Version'', ''Title'', ''Content''],
      rows = map (\<lambda>i. (i, review_example (Text ''Great'') (Text ''I love it''))) [0, 1, 2, 3, 4]\<rparr>"

definition processor_example :: "unit DataProcessor" where
  "processor_example =
     \<lparr>load_data = Inr five_reviews_example,
      filter_by_date_range = (\<lambda>start end. Inr five_reviews_example),
      get_data_stats = (\<lambda>df. Inr ())\<rparr>"

definition request_example :: ComparisonRequest where
  "request_example =
     \<lparr>period1_start = ''2025-01-01'', period1_end = ''2025-01-05'',
      period2_start = ''2025-01-06'', period2_end = ''2025-01-10'',
      period1_name = Some ''first'', period2_name = Some ''second'',
      output_format = Some ''json''\<rparr>"

definition analyzer_example :: "(unit, unit, unit, unit, unit) DataAnalyzer" where
  "analyzer_example =
     \<lparr>call_analyze_review_volume = (\<lambda>df. Inr ()),
      call_analyze_sentiment_distribution = (\<lambda>df. Inr ()),
      call_analyze_sentiment_trend = (\<lambda>df. Inr ()),
      call_analyze_topics = (\<lambda>df. Inr ()),
      call_compare_time_periods = (\<lambda>df1 df2 n1 n2. Inr ())\<rparr>"

definition reporter_example :: "unit ReportGenerator" where
  "reporter_example =
     \<lparr>generate_json_report = (\<lambda>c n1 n2. Inr ''reports/comparison.json''),
      generate_text_report = (\<lambda>c n1 n2. Inr ''reports/comparison.txt''),
      generate_html_report = (\<lambda>c df1 df2 n1 n2. Inr ''reports/comparison.html'')\<rparr>"


lemma attached_attached: "attached s (attached s' r) = attached s r"
  by (simp add: attached_def)

lemma attached_cleared: "attached s (cleared cols r) = attached s r"
  by (simp add: attached_def cleared_def Let_def)

lemma cleared_present:
  "''sentiment_label'' \<in> set cols \<Longrightarrow> ''sentiment_score'' \<in> set cols \<Longrightarrow> cleared cols r = r"
  by (simp add: cleared_def)

lemma columns_attach:
  "''sentiment_label'' \<in> set (columns (attach p df)) \<and> ''sentiment_score'' \<in> set (columns (attach p df))"
  by (cases p) (simp add: attach_def at_set_score_def at_set_label_def add_column_def Let_def)

lemma rows_attach:
  "rows (attach (idx, s) df) =
     map (\<lambda>(i, r). if i = idx then (i, attached s r) else (i, cleared (columns df) r)) (rows df)"
  by (auto simp add: attach_def at_set_score_def at_set_label_def add_column_def Let_def
      attached_def cleared_def split: prod.splits)

lemma rows_fold_attach_present:
  "''sentiment_label'' \<in> set (columns df) \<Longrightarrow> ''sentiment_score'' \<in> set (columns df) \<Longrightarrow>
   rows (fold attach rs df) =
     map (\<lambda>(i, r). case map_of (rev rs) i of None \<Rightarrow> (i, r) | Some s \<Rightarrow> (i, attached s r)) (rows df)"
proof (induction rs arbitrary: df)
  case Nil
  then show ?case by simp
next
  case (Cons p rs)
  obtain idx s where p: "p = (idx, s)" by (cases p)
  have cols: "''sentiment_label'' \<in> set (columns (attach p df))"
    "''sentiment_score'' \<in> set (columns (attach p df))"
    using columns_attach by blast+
  have "rows (fold attach (p # rs) df) = rows (fold attach rs (attach p df))" by simp
  also have "\<dots> = map (\<lambda>(i, r). case map_of (rev rs) i of None \<Rightarrow> (i, r) | Some s \<Rightarrow> (i, attached s r))
      (rows (attach p df))"
    using Cons.IH [OF cols] .
  also have "\<dots> = map (\<lambda>(i, r). case map_of (rev (p # rs)) i of None \<Rightarrow> (i, r) | Some s \<Rightarrow> (i, attached s r)) (rows df)"
    using Cons.prems
    by (auto simp add: p rows_attach cleared_present attached_attached map_add_def split: option.splits)
  finally show ?case .
qed

lemma rows_fold_attach:
  "rs \<noteq> [] \<Longrightarrow>
   rows (fold attach rs df) =
     map (\<lambda>(i, r). case map_of (rev rs) i of None \<Rightarrow> (i, cleared (columns df) r)
                     | Some s \<Rightarrow> (i, attached s r)) (rows df)"
proof (cases rs)
  case Nil
  assume "rs \<noteq> []"
  with Nil show ?thesis by simp
next
  case (Cons p rs')
  obtain idx s where p: "p = (idx, s)" by (cases p)
  have cols: "''sentiment_label'' \<in> set (columns (attach (idx, s) df))"
    "''sentiment_score'' \<in> set (columns (attach (idx, s) df))"
    using columns_attach by blast+
  have "rows (fold attach rs df) = rows (fold attach rs' (attach (idx, s) df))"
    by (simp add: Cons p)
  also have "\<dots> = map (\<lambda>(i, r). case map_of (rev rs') i of None \<Rightarrow> (i, r) | Some s \<Rightarrow> (i, attached s r))
      (rows (attach (idx, s) df))"
    using rows_fold_attach_present [OF cols] .
  also have "\<dots> = map (\<lambda>(i, r). case map_of (rev rs) i of None \<Rightarrow> (i, cleared (columns df) r)
                     | Some s \<Rightarrow> (i, attached s r)) (rows df)"
    by (auto simp add: Cons p rows_attach attached_attached attached_cleared map_add_def
        split: option.splits)
  finally show ?thesis .
qed


lemma length_rows_attach: "length (rows (attach p df)) = length (rows df)"
  by (cases p) (simp add: rows_attach)

lemma length_rows_fold_attach: "length (rows (fold attach rs df)) = length (rows df)"
  by (induction rs arbitrary: df) (simp_all add: length_rows_attach)

lemma collect_eq: "collect (i, x) = (i, snd (collect (0, x)))"
  by (cases x) (simp_all add: collect_def)

lemma results_lookup:
  assumes d: "distinct (map fst rws)" and p: "mset completed = mset [0..<length rws]"
    and m: "(i, row) \<in> set rws"
  shows "map_of (rev (map (\<lambda>k. collect (map (\<lambda>(i, row). (i, f row)) rws ! k)) completed)) i
         = Some (snd (collect (0, f row)))"
proof -
  let ?rs = "map (\<lambda>k. collect (map (\<lambda>(i, row). (i, f row)) rws ! k)) completed"
  have sc: "set completed = {0..<length rws}"
    using p by (metis mset_eq_setD set_upt)
  have dc: "distinct completed"
    using p by (metis distinct_upt mset_eq_imp_distinct_iff)
  have el: "\<And>k. k < length rws \<Longrightarrow>
      collect (map (\<lambda>(i, row). (i, f row)) rws ! k) = (fst (rws ! k), snd (collect (0, f (snd (rws ! k)))))"
    by (simp add: case_prod_beta collect_eq [symmetric])
  have rs: "?rs = map (\<lambda>k. (fst (rws ! k), snd (collect (0, f (snd (rws ! k)))))) completed"
    using sc el by (intro map_cong) auto
  have keys: "map fst ?rs = map (\<lambda>k. map fst rws ! k) completed"
    unfolding rs using sc by (auto intro!: map_cong simp add: comp_def)
  have "inj_on (\<lambda>k. map fst rws ! k) (set completed)"
  proof (unfold sc, rule inj_onI)
    fix x y assume "x \<in> {0..<length rws}" "y \<in> {0..<length rws}"
      and "map fst rws ! x = map fst rws ! y"
    then show "x = y"
      using d nth_eq_iff_index_eq [of "map fst rws" x y] by simp
  qed
  then have "distinct (map fst ?rs)"
    unfolding keys using dc by (simp add: distinct_map)
  then have dr: "distinct (map fst (rev ?rs))"
    by (simp add: rev_map [symmetric])
  obtain k where k: "k < length rws" "rws ! k = (i, row)"
    using m by (auto simp add: in_set_conv_nth)
  then have "k \<in> set completed" using sc by simp
  then have "(i, snd (collect (0, f row))) \<in> set ?rs"
    unfolding rs using k by force
  then have "(i, snd (collect (0, f row))) \<in> set (rev ?rs)" by simp
  from map_of_is_SomeI [OF dr this] show ?thesis .
qed

lemma rows_analyze_dataframe:
  assumes d: "distinct (map fst (rows df))" and p: "mset completed = mset [0..<len df]"
    and ne: "\<not> empty_df df"
  shows "rows (analyze_dataframe self completed df) =
         map (\<lambda>(i, row). (i, attached (row_result self (columns df) row) row)) (rows df)"
proof -
  let ?f = "analyze_row self (columns df)"
  let ?rs = "map (\<lambda>k. collect (map (\<lambda>(i, row). (i, ?f row)) (rows df) ! k)) completed"
  have "rows df \<noteq> []" using ne by (simp add: empty_df_def)
  then have "length completed \<noteq> 0"
    using mset_eq_length [OF p] by (simp add: len_def)
  then have "completed \<noteq> []" by simp
  then have rne: "?rs \<noteq> []" by simp
  have "rows (analyze_dataframe self completed df) = rows (fold attach ?rs df)"
    using ne by (simp add: analyze_dataframe_def Let_def)
  also have "\<dots> = map (\<lambda>(i, r). case map_of (rev ?rs) i of None \<Rightarrow> (i, cleared (columns df) r)
                     | Some s \<Rightarrow> (i, attached s r)) (rows df)"
    by (rule rows_fold_attach [OF rne])
  also have "\<dots> = map (\<lambda>(i, row). (i, attached (row_result self (columns df) row) row)) (rows df)"
  proof (rule map_cong [OF refl])
    fix x assume x: "x \<in> set (rows df)"
    obtain i row where ir: "x = (i, row)" by (cases x)
    have "map_of (rev ?rs) i = Some (snd (collect (0, ?f row)))"
      using results_lookup [OF d p [unfolded len_def]] x ir by blast
    then show "(case x of (i, r) \<Rightarrow> case map_of (rev ?rs) i of None \<Rightarrow> (i, cleared (columns df) r)
                     | Some s \<Rightarrow> (i, attached s r)) =
      (case x of (i, row) \<Rightarrow> (i, attached (row_result self (columns df) row) row))"
      by (simp add: ir row_result_def)
  qed
  finally show ?thesis .
qed

lemma len_analyze_dataframe: "len (analyze_dataframe self completed df) = len df"
  by (simp add: analyze_dataframe_def len_def Let_def length_rows_fold_attach)

section \<open>Single-text classification\<close>





subsection \<open>The example frame\<close>

lemma len_reviews_example: "len reviews_example = 3"
  by (simp add: len_def reviews_example_def)

lemma distinct_reviews_example: "distinct (map fst (rows reviews_example))"
  by (simp add: reviews_example_def)

lemma perm_example: "mset [2, 0, Suc 0] = mset [0..<len reviews_example]"
  by (simp add: len_reviews_example upt_rec numeral_3_eq_3)


lemma not_empty_reviews_example: "\<not> empty_df reviews_example"
  by (simp add: empty_df_def reviews_example_def)

lemma row_results_example:
  "map (\<lambda>(i, row). row_result lexicon_example (columns reviews_example) row) (rows reviews_example)
   = [\<lparr>label = ''positive'', score = 0.8\<rparr>, neutral_half, neutral_half]"
  by (simp add: reviews_example_def row_result_def collect_def analyze_row_def combined_text_def
      review_example_def strip_def isspace_def analyze_text_def analyze_text_try_def
      lexicon_example_def vader_example_def neutral_half_def)




section \<open>Batch classification\<close>

text \<open>
  C2. The batch classification returns as many records as it was given, and, whatever the
  order in which the worker pool completes the futures, each record carries the result
  computed from its own title and content (the neutral result where its task raised): the
  results are stored by index label, and the labels of a record set are pairwise distinct.
  A frame that pandas calls empty (no rows, or no columns) is returned as it is.
\<close>

theorem analyze_dataframe_attaches_by_identity:
  assumes "distinct (map fst (rows df))" and "mset completed = mset [0..<len df]"
  shows "len (analyze_dataframe self completed df) = len df \<and>
         (\<not> empty_df df \<longrightarrow>
            rows (analyze_dataframe self completed df) =
              map (\<lambda>(i, row). (i, attached (row_result self (columns df) row) row)) (rows df))"
  using assms by (simp add: len_analyze_dataframe rows_analyze_dataframe)

theorem analyze_dataframe_attaches_by_identity_witness:
  "distinct (map fst (rows reviews_example)) \<and>
   mset [2, 0, Suc 0] = mset [0..<len reviews_example] \<and>
   len (analyze_dataframe lexicon_example [2, 0, Suc 0] reviews_example) = 3 \<and>
   rows (analyze_dataframe lexicon_example [2, 0, Suc 0] reviews_example) =
     map (\<lambda>(i, row). (i, attached (row_result lexicon_example (columns reviews_example) row) row))
       (rows reviews_example)"
  using analyze_dataframe_attaches_by_identity [OF distinct_reviews_example perm_example, of lexicon_example]
    distinct_reviews_example perm_example not_empty_reviews_example len_reviews_example
  by simp






section \<open>The comparison of two periods\<close>

subsection \<open>The summary does not depend on the conversion of the dates\<close>

















subsection \<open>The example periods, evaluated\<close>

lemma grouper1: "grouper freq_D period1_example =
   [(0, [classified 0 5 ''1.1.0'' ''positive'' 0.8]), (1, []),
    (2, [classified (2 * ns_per_day) 4 ''1.1.0'' ''neutral'' 0])]"
  by (simp add: grouper_def period1_example_def classified_def freq_D_def on_day_def
      ns_per_day_def upto.simps)

lemma bucket_means1: "bucket_means freq_D period1_example = [(0, Fin 0.8), (1, NaN), (2, Fin 0)]"
  by (simp add: bucket_means_def grouper1 mean_def classified_def)

lemma grouper2: "grouper freq_D period2_example =
   [(10, [classified (10 * ns_per_day) 2 ''1.1.1'' ''negative'' (- 0.6),
          classified (10 * ns_per_day + 3600000000000) 3 ''1.1.1'' ''neutral'' 0,
          classified (10 * ns_per_day + 7200000000000) 4 ''1.1.0'' ''positive'' 0.6])]"
  by (simp add: grouper_def period2_example_def classified_def freq_D_def on_day_def
      ns_per_day_def upto.simps)

lemma bucket_means2: "bucket_means freq_D period2_example = [(10, Fin 0)]"
  by (simp add: bucket_means_def grouper2 mean_def classified_def)

lemma slope1: "slope_of [Fin (4 / 5), NaN, Fin 0] = - (2 / 5)"
  by (simp add: slope_of_def valid_points_def upt_rec numeral_3_eq_3 polyfit_def power2_eq_square)

lemma slope2: "slope_of [Fin 0] = 0"
  by (simp add: slope_of_def)

lemma datetime_examples: "is_datetime64_dtype period1_example" "is_datetime64_dtype period2_example"
  by (simp_all add: is_datetime64_dtype_def period1_example_def period2_example_def classified_def)

lemma not_empty_examples: "\<not> empty_df period1_example" "\<not> empty_df period2_example"
  by (simp_all add: empty_df_def period1_example_def period2_example_def classified_columns_def)

lemma columns_examples: "columns period1_example = classified_columns" "columns period2_example = classified_columns"
  by (simp_all add: period1_example_def period2_example_def)

lemma trend1:
  "analyze_sentiment_trend parse_example freq_D period1_example =
     (period1_example,
      Inr (Some \<lparr>sentiment_trend = [(0, 0.8), (2, 0)],
                 most_positive_date = Some 0, most_positive_score = 0.8,
                 most_negative_date = Some 2, most_negative_score = 0,
                 trend_slope = - 0.4, trend_direction = Down\<rparr>))"
  by (simp add: analyze_sentiment_trend_def not_empty_examples columns_examples datetime_examples
      classified_columns_def bucket_means1 slope1 direction_of_def)

lemma trend2:
  "analyze_sentiment_trend parse_example freq_D period2_example =
     (period2_example,
      Inr (Some \<lparr>sentiment_trend = [(10, 0)],
                 most_positive_date = Some 10, most_positive_score = 0,
                 most_negative_date = Some 10, most_negative_score = 0,
                 trend_slope = 0, trend_direction = Stable\<rparr>))"
  by (simp add: analyze_sentiment_trend_def not_empty_examples columns_examples datetime_examples
      classified_columns_def bucket_means2 slope2 direction_of_def)









subsection \<open>What a returned comparison is made of\<close>








subsection \<open>The daily average\<close>












lemma len_examples: "len period1_example = 2" "len period2_example = 3"
  by (simp_all add: len_def period1_example_def period2_example_def)






section \<open>The statistics of one period\<close>

subsection \<open>The sentiment distribution\<close>

lemma count_list_somes: "count_list [v. Some v \<leftarrow> cells] k = count_list cells (Some k)"
  by (induction cells) (auto split: option.splits)

lemma map_of_sort_key:
  assumes "distinct (map fst xs)"
  shows "map_of (sort_key f xs) = map_of xs"
proof -
  have "mset (map fst (sort_key f xs)) = mset (map fst xs)" by simp
  then have "distinct (map fst (sort_key f xs))"
    using assms by (metis mset_eq_imp_distinct_iff)
  moreover have "set (sort_key f xs) = set xs" by simp
  ultimately show ?thesis using assms by (simp add: map_of_inject_set)
qed

lemma map_of_graph:
  "map_of (map (\<lambda>v. (v, g v)) ks) k = (if k \<in> set ks then Some (g k) else None)"
  by (induction ks) auto

lemma get_count_value_counts: "get_count (value_counts cells) k = count_list cells (Some k)"
proof -
  let ?vals = "[v. Some v \<leftarrow> cells]"
  let ?ks = "rev (remdups (rev ?vals))"
  have d: "distinct (map fst (map (\<lambda>v. (v, count_list ?vals v)) ?ks))"
    by (simp add: comp_def)
  have "map_of (value_counts cells) k = (if k \<in> set ?vals then Some (count_list ?vals k) else None)"
    unfolding value_counts_def Let_def map_of_sort_key [OF d] map_of_graph by simp
  then show ?thesis
    by (auto simp add: get_count_def count_list_somes count_list_0_iff split: option.splits)
qed

lemma count_three:
  assumes "a \<noteq> b" "a \<noteq> c" "b \<noteq> c" "set xs \<subseteq> {a, b, c}"
  shows "count_list xs a + count_list xs b + count_list xs c = length xs"
  using assms(4,1,2,3) by (induction xs) auto

lemma ratios_sum:
  assumes n: "0 < len df"
    and l: "\<forall>(i, r) \<in> set (rows df). sentiment_label r \<in> {Some ''positive'', Some ''negative'', Some ''neutral''}"
  shows "real (get_count (value_counts (map (\<lambda>(i, r). sentiment_label r) (rows df))) ''positive'') / real (len df)
       + real (get_count (value_counts (map (\<lambda>(i, r). sentiment_label r) (rows df))) ''negative'') / real (len df)
       + real (get_count (value_counts (map (\<lambda>(i, r). sentiment_label r) (rows df))) ''neutral'') / real (len df) = 1"
proof -
  define cells where "cells = map (\<lambda>(i, r). sentiment_label r) (rows df)"
  define p where "p = count_list cells (Some ''positive'')"
  define q where "q = count_list cells (Some ''negative'')"
  define u where "u = count_list cells (Some ''neutral'')"
  have "set cells \<subseteq> {Some ''positive'', Some ''negative'', Some ''neutral''}"
    using l unfolding cells_def by auto
  then have "p + q + u = length cells"
    unfolding p_def q_def u_def by (intro count_three) simp_all
  moreover have "length cells = len df"
    by (simp add: cells_def len_def)
  ultimately have s: "real p + real q + real u = real (len df)"
    by (simp only: of_nat_add [symmetric])
  have "real p / real (len df) + real q / real (len df) + real u / real (len df)
        = (real p + real q + real u) / real (len df)"
    by (simp only: add_divide_distrib)
  also have "\<dots> = 1"
    using n by (simp only: s) simp
  finally show ?thesis
    unfolding get_count_value_counts cells_def [symmetric] p_def q_def u_def .
qed

lemma labels_example:
  "\<forall>(i, r) \<in> set (rows period2_example).
     sentiment_label r \<in> {Some ''positive'', Some ''negative'', Some ''neutral''}"
  by (simp add: period2_example_def classified_def)

lemma len_no_reviews_example: "len no_reviews_example = 0"
  by (simp add: len_def no_reviews_example_def)

text \<open>
  C6, as stated, fails for a record set without records: the early return gives the
  dictionary that holds only an empty distribution, and no ratio at all.
\<close>

theorem sentiment_distribution_empty_counterexample:
  "len no_reviews_example = 0 \<and> analyze_sentiment_distribution no_reviews_example = Inr None"
  by (simp add: analyze_sentiment_distribution_def empty_df_def len_def no_reviews_example_def)

text \<open>
  C6, amended. A record set without records gets the dictionary that holds only an empty
  distribution. A record set with at least one record, with the label and the score column,
  and every label one of positive, negative and neutral, gets a full result whose three
  ratios add up to 1 (exactly, in real arithmetic).
\<close>

theorem sentiment_distribution_ratios:
  "(len df = 0 \<longrightarrow> analyze_sentiment_distribution df = Inr None) \<and>
   (0 < len df \<and> ''sentiment_label'' \<in> set (columns df) \<and> ''sentiment_score'' \<in> set (columns df) \<and>
    (\<forall>(i, r) \<in> set (rows df).
        sentiment_label r \<in> {Some ''positive'', Some ''negative'', Some ''neutral''}) \<longrightarrow>
    (\<exists>d. analyze_sentiment_distribution df = Inr (Some d) \<and>
         positive_ratio d + negative_ratio d + neutral_ratio d = 1))"
proof (intro conjI impI)
  assume "len df = 0"
  then show "analyze_sentiment_distribution df = Inr None"
    by (simp add: analyze_sentiment_distribution_def empty_df_def len_def)
next
  assume a: "0 < len df \<and> ''sentiment_label'' \<in> set (columns df) \<and> ''sentiment_score'' \<in> set (columns df) \<and>
    (\<forall>(i, r) \<in> set (rows df).
        sentiment_label r \<in> {Some ''positive'', Some ''negative'', Some ''neutral''})"
  then have ne: "\<not> empty_df df"
    by (auto simp add: empty_df_def len_def)
  from a ratios_sum [of df] ne show "\<exists>d. analyze_sentiment_distribution df = Inr (Some d) \<and>
         positive_ratio d + negative_ratio d + neutral_ratio d = 1"
    by (simp add: analyze_sentiment_distribution_def Let_def)
qed

theorem sentiment_distribution_ratios_witness:
  "len no_reviews_example = 0 \<and> analyze_sentiment_distribution no_reviews_example = Inr None \<and>
   0 < len period2_example \<and>
   (\<exists>d. analyze_sentiment_distribution period2_example = Inr (Some d) \<and>
        positive_ratio d + negative_ratio d + neutral_ratio d = 1)"
  using sentiment_distribution_ratios [of no_reviews_example]
    sentiment_distribution_ratios [of period2_example] labels_example
  by (simp add: len_examples columns_examples classified_columns_def len_no_reviews_example)

text \<open>
  C9. The code guards the correlation on the rating column and the number of rows only: a
  frame with ratings and labels, two rows and no score column raises \<open>KeyError\<close>, where
  the claim (and the two lines above it in the source, which test for the score column)
  give 0.
\<close>

theorem sentiment_distribution_raises_without_score:
  "analyze_sentiment_distribution unscored_example = Inl (KeyError ''sentiment_score'')"
  by (simp add: analyze_sentiment_distribution_def empty_df_def len_def unscored_example_def)


subsection \<open>The slope of the trend is the slope of least squares\<close>

lemma squared_error_decomposition:
  "squared_error pts a b =
     squared_error pts m c
     - 2 * (a - m) * (\<Sum>(x, y) \<leftarrow> pts. (y - (m * x + c)) * x)
     - 2 * (b - c) * (\<Sum>(x, y) \<leftarrow> pts. y - (m * x + c))
     + (\<Sum>(x, y) \<leftarrow> pts. ((a - m) * x + (b - c)) ^ 2)"
  unfolding squared_error_def
  by (induction pts) (auto simp add: algebra_simps power2_eq_square)

lemma sum_residuals:
  "(\<Sum>(x, y) \<leftarrow> pts. y - (m * x + c)) =
     sum_list (map snd pts) - m * sum_list (map fst pts) - real (length pts) * c"
  by (induction pts) (auto simp add: algebra_simps)

lemma sum_residuals_times:
  "(\<Sum>(x, y) \<leftarrow> pts. (y - (m * x + c)) * x) =
     ((\<Sum>(x, y) \<leftarrow> pts. x * y) :: real) - m * (\<Sum>(x, y) \<leftarrow> pts. x * x) - c * sum_list (map fst pts)"
proof (induction pts)
  case Nil
  show ?case by simp
next
  case (Cons p pts)
  obtain x y where p: "p = (x, y)" by (cases p)
  show ?case
    unfolding p using Cons.IH by (simp add: ring_distribs)
qed

lemma sum_squares_about:
  "(\<Sum>a \<leftarrow> map fst pts. (a - p) ^ 2) =
     (\<Sum>(x, y) \<leftarrow> pts. x * x) - 2 * p * sum_list (map fst pts) + real (length pts) * p * p"
  by (induction pts) (auto simp add: algebra_simps power2_eq_square)

lemma sum_products_about:
  "(\<Sum>(a, b) \<leftarrow> pts. (a - p) * (b - q)) =
     ((\<Sum>(x, y) \<leftarrow> pts. x * y) :: real) - q * sum_list (map fst pts) - p * sum_list (map snd pts)
       + real (length pts) * p * q"
  by (induction pts) (auto simp add: algebra_simps)

text \<open>The normal equations of the fitted line.\<close>

lemma polyfit_normal_equations:
  assumes "pts \<noteq> []"
    and sxx: "(\<Sum>a \<leftarrow> map fst pts. (a - sum_list (map fst pts) / real (length pts)) ^ 2) \<noteq> 0"
    and fit: "polyfit (map fst pts) (map snd pts) = Inr (m, c)"
  shows "(\<Sum>(x, y) \<leftarrow> pts. y - (m * x + c)) = 0"
    and "(\<Sum>(x, y) \<leftarrow> pts. (y - (m * x + c)) * x) = 0"
proof -
  define n where "n = real (length pts)"
  define S1 where "S1 = sum_list (map fst pts)"
  define Sy where "Sy = sum_list (map snd pts)"
  define Sxx where "Sxx = (\<Sum>(x, y) \<leftarrow> pts. x * x)"
  define Sxy where "Sxy = (\<Sum>(x, y) \<leftarrow> pts. x * y)"
  define mx where "mx = S1 / n"
  define my where "my = Sy / n"
  have n: "n \<noteq> 0" using assms(1) by (simp add: n_def)
  have nmx: "n * mx = S1" and nmy: "n * my = Sy"
    using n by (simp_all add: mx_def my_def)
  define sxx where "sxx = (\<Sum>a \<leftarrow> map fst pts. (a - mx) ^ 2)"
  define sxy where "sxy = (\<Sum>(a, b) \<leftarrow> pts. (a - mx) * (b - my))"
  have sxx_eq: "sxx = Sxx - mx * S1"
  proof -
    have "sxx = Sxx - 2 * mx * S1 + n * mx * mx"
      unfolding sxx_def Sxx_def S1_def n_def by (rule sum_squares_about)
    also have "\<dots> = Sxx - 2 * mx * S1 + S1 * mx" by (simp only: nmx)
    finally show ?thesis by simp
  qed
  have sxy_eq: "sxy = Sxy - my * S1"
  proof -
    have "sxy = Sxy - my * S1 - mx * Sy + n * mx * my"
      unfolding sxy_def Sxy_def S1_def Sy_def n_def by (rule sum_products_about)
    also have "n * mx * my = mx * (n * my)" by simp
    also have "\<dots> = mx * Sy" by (simp only: nmy)
    finally show ?thesis by simp
  qed
  have sxx0: "sxx \<noteq> 0"
    using sxx unfolding sxx_def mx_def S1_def n_def .
  have z: "zip (map fst pts) (map snd pts) = pts" by (rule zip_map_fst_snd)
  have "polyfit (map fst pts) (map snd pts) = Inr (sxy / sxx, my - sxy / sxx * mx)"
    unfolding polyfit_def Let_def z sxx_def sxy_def mx_def my_def S1_def Sy_def n_def
    using assms(1) by simp
  then have "Inr (m, c) = (Inr (sxy / sxx, my - sxy / sxx * mx) :: exn + real \<times> real)"
    using fit by (simp only:)
  then have mc: "m = sxy / sxx" "c = my - sxy / sxx * mx"
    by (simp_all only: sum.inject prod.inject)
  have "(\<Sum>(x, y) \<leftarrow> pts. y - (m * x + c)) = Sy - m * S1 - n * c"
    unfolding Sy_def S1_def n_def by (rule sum_residuals)
  also have "\<dots> = n * my - m * (n * mx) - n * (my - m * mx)"
    unfolding nmx nmy mc by (simp add: mc)
  also have "\<dots> = 0" by (simp add: algebra_simps)
  finally show "(\<Sum>(x, y) \<leftarrow> pts. y - (m * x + c)) = 0" .
  have "(\<Sum>(x, y) \<leftarrow> pts. (y - (m * x + c)) * x) = Sxy - m * Sxx - c * S1"
    unfolding Sxy_def Sxx_def S1_def by (rule sum_residuals_times)
  also have "\<dots> = (Sxy - my * S1) - m * (Sxx - mx * S1)"
    unfolding mc(2) mc(1) [symmetric] by (simp add: algebra_simps)
  also have "\<dots> = sxy - m * sxx" by (simp only: sxx_eq sxy_eq)
  also have "\<dots> = 0" using sxx0 by (simp add: mc(1))
  finally show "(\<Sum>(x, y) \<leftarrow> pts. (y - (m * x + c)) * x) = 0" .
qed

lemma sum_squares_zero:
  fixes f :: "'a \<Rightarrow> real"
  assumes "(\<Sum>p \<leftarrow> ps. (f p) ^ 2) = 0" "p \<in> set ps"
  shows "f p = 0"
  using assms
proof (induction ps)
  case Nil
  then show ?case by simp
next
  case (Cons q ps)
  have n: "0 \<le> (f q) ^ 2" "0 \<le> (\<Sum>p \<leftarrow> ps. (f p) ^ 2)"
    by (simp, rule sum_list_nonneg, auto)
  from Cons.prems(1) have "(f q) ^ 2 + (\<Sum>p \<leftarrow> ps. (f p) ^ 2) = 0" by simp
  with n have "(f q) ^ 2 = 0" "(\<Sum>p \<leftarrow> ps. (f p) ^ 2) = 0"
    by linarith+
  then show ?case using Cons.IH Cons.prems(2) by auto
qed

lemma sum_squares_nonneg:
  fixes f :: "'a \<Rightarrow> real"
  shows "0 \<le> (\<Sum>p \<leftarrow> ps. (f p) ^ 2)"
  by (rule sum_list_nonneg) auto

lemma spread_positive:
  assumes "x1 \<in> set xs" "x2 \<in> set xs" "x1 \<noteq> (x2::real)"
  shows "(\<Sum>a \<leftarrow> xs. (a - p) ^ 2) \<noteq> 0"
proof
  assume z: "(\<Sum>a \<leftarrow> xs. (a - p) ^ 2) = 0"
  have "x1 - p = 0" "x2 - p = 0"
    using sum_squares_zero [OF z] assms(1,2) by blast+
  then show False using assms(3) by simp
qed

lemma polyfit_minimal:
  assumes ne: "pts \<noteq> []"
    and sxx: "(\<Sum>a \<leftarrow> map fst pts. (a - sum_list (map fst pts) / real (length pts)) ^ 2) \<noteq> 0"
    and fit: "polyfit (map fst pts) (map snd pts) = Inr (m, c)"
  shows "squared_error pts a b =
         squared_error pts m c + (\<Sum>p \<leftarrow> pts. ((a - m) * fst p + (b - c)) ^ 2)"
proof -
  have "(\<Sum>(x, y) \<leftarrow> pts. ((a - m) * x + (b - c)) ^ 2) = (\<Sum>p \<leftarrow> pts. ((a - m) * fst p + (b - c)) ^ 2)"
    by (rule arg_cong [of _ _ sum_list], rule map_cong) (auto simp add: case_prod_beta)
  then show ?thesis
    using squared_error_decomposition [of pts a b m c]
      polyfit_normal_equations [OF ne sxx fit]
    by simp
qed

lemma polyfit_least_squares:
  assumes ne: "pts \<noteq> []"
    and sxx: "(\<Sum>a \<leftarrow> map fst pts. (a - sum_list (map fst pts) / real (length pts)) ^ 2) \<noteq> 0"
    and fit: "polyfit (map fst pts) (map snd pts) = Inr (m, c)"
  shows "least_squares_slope pts m"
  unfolding least_squares_slope_def
proof (intro exI [of _ c] allI)
  fix a b
  show "squared_error pts m c \<le> squared_error pts a b"
    unfolding polyfit_minimal [OF ne sxx fit, of a b]
    using sum_squares_nonneg [of "\<lambda>p. (a - m) * fst p + (b - c)" pts] by simp
qed

lemma polyfit_unique:
  assumes ne: "pts \<noteq> []"
    and sxx: "(\<Sum>a \<leftarrow> map fst pts. (a - sum_list (map fst pts) / real (length pts)) ^ 2) \<noteq> 0"
    and fit: "polyfit (map fst pts) (map snd pts) = Inr (m, c)"
    and two: "p1 \<in> set pts" "p2 \<in> set pts" "fst p1 \<noteq> fst p2"
    and ls: "least_squares_slope pts m'"
  shows "m' = m"
proof -
  from ls obtain c' where "\<forall>a b. squared_error pts m' c' \<le> squared_error pts a b"
    unfolding least_squares_slope_def by blast
  then have "squared_error pts m' c' \<le> squared_error pts m c" by blast
  then have "(\<Sum>p \<leftarrow> pts. ((m' - m) * fst p + (c' - c)) ^ 2) \<le> 0"
    unfolding polyfit_minimal [OF ne sxx fit, of m' c'] by simp
  then have z: "(\<Sum>p \<leftarrow> pts. ((m' - m) * fst p + (c' - c)) ^ 2) = 0"
    using sum_squares_nonneg [of "\<lambda>p. (m' - m) * fst p + (c' - c)" pts] by simp
  have "(m' - m) * fst p1 + (c' - c) = 0" "(m' - m) * fst p2 + (c' - c) = 0"
    using sum_squares_zero [OF z] two(1,2) by blast+
  then have "(m' - m) * (fst p1 - fst p2) = 0"
    by (simp add: algebra_simps)
  then show ?thesis using two(3) by simp
qed

lemma valid_fst_subset:
  "fst ` set [(real k, v). (k, Fin v) \<leftarrow> ps] \<subseteq> real ` fst ` set ps"
proof (rule subsetI)
  fix x assume "x \<in> fst ` set [(real k, v). (k, Fin v) \<leftarrow> ps]"
  then obtain k v where "(k, Fin v) \<in> set ps" "x = real k" by auto
  then show "x \<in> real ` fst ` set ps" by force
qed

lemma valid_distinct:
  "distinct (map fst ps) \<Longrightarrow> distinct (map fst [(real k, v). (k, Fin v) \<leftarrow> ps])"
proof (induction ps)
  case Nil
  then show ?case by simp
next
  case (Cons p ps)
  obtain k f where p: "p = (k, f)" by (cases p)
  have "real k \<notin> fst ` set [(real k, v). (k, Fin v) \<leftarrow> ps]"
  proof
    assume "real k \<in> fst ` set [(real k, v). (k, Fin v) \<leftarrow> ps]"
    then have "real k \<in> real ` fst ` set ps" using valid_fst_subset by blast
    then have "k \<in> fst ` set ps" by (auto simp add: image_iff)
    then show False using Cons.prems by (simp add: p)
  qed
  then show ?case
    using Cons by (cases f) (simp_all add: p)
qed

lemma valid_length: "length [(real k, v). (k, Fin v) \<leftarrow> ps] \<le> length ps"
proof (induction ps)
  case Nil
  show ?case by simp
next
  case (Cons p ps)
  obtain k f where p: "p = (k, f)" by (cases p)
  show ?case using Cons.IH by (cases f) (simp_all add: p)
qed

lemma distinct_valid_points: "distinct (map fst (valid_points y))"
  unfolding valid_points_def
  by (rule valid_distinct) (simp add: map_fst_zip)

lemma length_valid_points: "length (valid_points y) \<le> length y"
  unfolding valid_points_def
  using valid_length [of "zip [0..<length y] y"] by simp

lemma two_valid_points:
  assumes "2 \<le> length (valid_points y)"
  shows "\<exists>p1 p2. p1 \<in> set (valid_points y) \<and> p2 \<in> set (valid_points y) \<and> fst p1 \<noteq> fst p2"
proof -
  let ?v = "valid_points y"
  have l: "0 < length ?v" "1 < length ?v" using assms by linarith+
  have "map fst ?v ! 0 = map fst ?v ! 1 \<longleftrightarrow> (0::nat) = 1"
    by (rule nth_eq_iff_index_eq [OF distinct_valid_points]) (use l in simp_all)
  then have "map fst ?v ! 0 \<noteq> map fst ?v ! 1" by simp
  then have "fst (?v ! 0) \<noteq> fst (?v ! 1)" using l by simp
  moreover have "?v ! 0 \<in> set ?v" "?v ! 1 \<in> set ?v" using l by simp_all
  ultimately show ?thesis by blast
qed

lemma slope_of_few: "length (valid_points y) < 2 \<Longrightarrow> slope_of y = 0"
  by (simp add: slope_of_def)

lemma slope_of_least_squares:
  assumes "2 \<le> length (valid_points y)"
  shows "least_squares_slope (valid_points y) (slope_of y) \<and>
         (\<forall>m. least_squares_slope (valid_points y) m \<longrightarrow> m = slope_of y)"
proof -
  let ?v = "valid_points y"
  from two_valid_points [OF assms] obtain p1 p2 where
    two: "p1 \<in> set ?v" "p2 \<in> set ?v" "fst p1 \<noteq> fst p2" by blast
  have ne: "?v \<noteq> []"
  proof
    assume "?v = []"
    then show False using assms by simp
  qed
  have sxx: "(\<Sum>a \<leftarrow> map fst ?v. (a - sum_list (map fst ?v) / real (length ?v)) ^ 2) \<noteq> 0"
    by (rule spread_positive [of "fst p1" _ "fst p2"]) (use two in auto)
  obtain m c where fit: "polyfit (map fst ?v) (map snd ?v) = Inr (m, c)"
    using ne by (auto simp add: polyfit_def Let_def)
  have "1 < length y" using assms length_valid_points [of y] by linarith
  then have s: "slope_of y = m"
    using assms fit by (simp add: slope_of_def)
  show ?thesis
    unfolding s
    using polyfit_least_squares [OF ne sxx fit] polyfit_unique [OF ne sxx fit two]
    by blast
qed

lemma direction_of_iff:
  "(direction_of s = Up \<longleftrightarrow> s > 0.01) \<and>
   (direction_of s = Down \<longleftrightarrow> s < - 0.01) \<and>
   (direction_of s = Stable \<longleftrightarrow> - 0.01 \<le> s \<and> s \<le> 0.01)"
  by (simp add: direction_of_def)


subsection \<open>The sentiment trend\<close>

lemma timestamp_rows_dropna:
  "[(freq t, r). (i, r) \<leftarrow> filter (\<lambda>(i, r). Date r \<noteq> NaT) rs, Timestamp t \<leftarrow> [Date r]] =
   [(freq t, r). (i, r) \<leftarrow> rs, Timestamp t \<leftarrow> [Date r]]"
proof (induction rs)
  case Nil
  show ?case by simp
next
  case (Cons p rs)
  obtain i r where p: "p = (i, r)" by (cases p)
  show ?case using Cons.IH by (cases "Date r") (simp_all add: p)
qed

lemma grouper_dropna: "grouper freq (dropna_Date df) = grouper freq df"
proof -
  have r: "rows (dropna_Date df) = filter (\<lambda>(i, r). Date r \<noteq> NaT) (rows df)"
    by (simp add: dropna_Date_def)
  show ?thesis
    unfolding grouper_def r timestamp_rows_dropna ..
qed

lemma bucket_means_dropna: "bucket_means freq (dropna_Date df) = bucket_means freq df"
  by (simp add: bucket_means_def grouper_dropna)

lemma columns_dropna: "columns (dropna_Date df) = columns df"
  by (simp add: dropna_Date_def)

lemma analyze_sentiment_trend_returns:
  assumes "analyze_sentiment_trend parse freq df = (df', Inr (Some t))"
  shows "df' = converted parse df \<and>
         trend_slope t = slope_of (map snd (bucket_means freq df')) \<and>
         trend_direction t = direction_of (trend_slope t)"
proof (cases "is_datetime64_dtype df")
  case True
  then show ?thesis
    using assms
    by (auto simp add: analyze_sentiment_trend_def converted_def Let_def
        split: if_splits option.splits prod.splits)
next
  case False
  then show ?thesis
    using assms
    by (auto simp add: analyze_sentiment_trend_def converted_def Let_def bucket_means_dropna
        columns_dropna split: if_splits option.splits prod.splits)
qed

lemma valid_points1: "valid_points (map snd (bucket_means freq_D period1_example)) = [(0, 4 / 5), (2, 0)]"
  by (simp add: bucket_means1 valid_points_def upt_rec numeral_3_eq_3)

lemma valid_points2: "valid_points (map snd (bucket_means freq_D period2_example)) = [(0, 0)]"
  by (simp add: bucket_means2 valid_points_def)

text \<open>
  C7. Whenever the trend analysis returns a full result, its direction is rising exactly
  when the slope exceeds 0.01, falling exactly when the slope is below -0.01, and stable
  otherwise, the two bounds themselves included. With fewer than two buckets that have a
  mean, the slope is 0 and the direction stable; with two or more, the slope is the one
  slope of least squares of the means over the bucket index, the buckets without a mean
  left out.
\<close>

theorem sentiment_trend_direction:
  assumes "analyze_sentiment_trend parse freq df = (df', Inr (Some t))"
  shows "(trend_direction t = Up \<longleftrightarrow> trend_slope t > 0.01) \<and>
         (trend_direction t = Down \<longleftrightarrow> trend_slope t < - 0.01) \<and>
         (trend_direction t = Stable \<longleftrightarrow> - 0.01 \<le> trend_slope t \<and> trend_slope t \<le> 0.01) \<and>
         (length (valid_points (map snd (bucket_means freq df'))) < 2 \<longrightarrow>
            trend_slope t = 0 \<and> trend_direction t = Stable) \<and>
         (2 \<le> length (valid_points (map snd (bucket_means freq df'))) \<longrightarrow>
            least_squares_slope (valid_points (map snd (bucket_means freq df'))) (trend_slope t) \<and>
            (\<forall>m. least_squares_slope (valid_points (map snd (bucket_means freq df'))) m \<longrightarrow>
                 m = trend_slope t))"
proof -
  from analyze_sentiment_trend_returns [OF assms]
  have s: "trend_slope t = slope_of (map snd (bucket_means freq df'))"
    and d: "trend_direction t = direction_of (trend_slope t)" by blast+
  have few: "length (valid_points (map snd (bucket_means freq df'))) < 2 \<longrightarrow>
      trend_slope t = 0 \<and> trend_direction t = Stable"
    unfolding d unfolding s using slope_of_few [of "map snd (bucket_means freq df')"]
    by (auto simp add: direction_of_def)
  have many: "2 \<le> length (valid_points (map snd (bucket_means freq df'))) \<longrightarrow>
      least_squares_slope (valid_points (map snd (bucket_means freq df'))) (trend_slope t) \<and>
      (\<forall>m. least_squares_slope (valid_points (map snd (bucket_means freq df'))) m \<longrightarrow>
           m = trend_slope t)"
    unfolding s using slope_of_least_squares [of "map snd (bucket_means freq df')"] by blast
  show ?thesis
    using direction_of_iff [of "trend_slope t"] few many unfolding d [symmetric] by blast
qed

theorem sentiment_trend_direction_witness:
  "analyze_sentiment_trend parse_example freq_D period1_example =
     (period1_example,
      Inr (Some \<lparr>sentiment_trend = [(0, 0.8), (2, 0)],
                 most_positive_date = Some 0, most_positive_score = 0.8,
                 most_negative_date = Some 2, most_negative_score = 0,
                 trend_slope = - 0.4, trend_direction = Down\<rparr>)) \<and>
   least_squares_slope [(0, 4 / 5), (2, 0)] (- 0.4) \<and>
   analyze_sentiment_trend parse_example freq_D period2_example =
     (period2_example,
      Inr (Some \<lparr>sentiment_trend = [(10, 0)],
                 most_positive_date = Some 10, most_positive_score = 0,
                 most_negative_date = Some 10, most_negative_score = 0,
                 trend_slope = 0, trend_direction = Stable\<rparr>)) \<and>
   length (valid_points (map snd (bucket_means freq_D period2_example))) < 2"
  using sentiment_trend_direction [OF trend1] sentiment_trend_direction [OF trend2] trend1 trend2
  by (simp add: valid_points1 valid_points2)


subsection \<open>What the statistics leave of the frame they are given\<close>

lemma analyze_review_volume_caller:
  assumes "\<not> empty_df df" "''Date'' \<in> set (columns df)"
  shows "fst (analyze_review_volume parse freq df) = converted parse df"
  using assms
  by (simp add: analyze_review_volume_def converted_def Let_def split: option.splits prod.splits)

lemma analyze_sentiment_trend_caller:
  assumes "\<not> empty_df df" "''Date'' \<in> set (columns df)" "''sentiment_label'' \<in> set (columns df)"
  shows "fst (analyze_sentiment_trend parse freq df) = converted parse df"
  using assms
  by (simp add: analyze_sentiment_trend_def converted_def Let_def split: option.splits prod.splits)

lemma converted_unparsed_example:
  "map (\<lambda>(i, r). Date r) (rows (converted parse_example unparsed_example)) = [Timestamp 0, NaT]"
  by (simp add: converted_def is_datetime64_dtype_def to_datetime_def unparsed_example_def
      classified_def parse_example_def)

lemma unparsed_example_facts:
  "\<not> empty_df unparsed_example" "''Date'' \<in> set (columns unparsed_example)"
  "''sentiment_label'' \<in> set (columns unparsed_example)"
  "map (\<lambda>(i, r). Date r) (rows unparsed_example) = [DateStr ''1970-01-01'', DateStr ''soon'']"
  by (simp_all add: empty_df_def unparsed_example_def classified_columns_def classified_def)

text \<open>
  C5. The claim fails on the code for a frame whose dates are still strings: the volume and
  the trend analysis assign the parsed column into the frame they were given
  (\<open>df['Date'] = pd.to_datetime(...)\<close>), so the caller's record set comes back with
  another \<open>Date\<close> column. The distribution and the keyword analysis assign nothing.
\<close>

theorem statistics_replace_date_column:
  "map (\<lambda>(i, r). Date r) (rows unparsed_example) = [DateStr ''1970-01-01'', DateStr ''soon''] \<and>
   map (\<lambda>(i, r). Date r) (rows (fst (analyze_review_volume parse_example freq_D unparsed_example)))
     = [Timestamp 0, NaT] \<and>
   map (\<lambda>(i, r). Date r) (rows (fst (analyze_sentiment_trend parse_example freq_D unparsed_example)))
     = [Timestamp 0, NaT] \<and>
   fst (analyze_review_volume parse_example freq_D unparsed_example) \<noteq> unparsed_example \<and>
   fst (analyze_sentiment_trend parse_example freq_D unparsed_example) \<noteq> unparsed_example"
proof -
  have v: "fst (analyze_review_volume parse_example freq_D unparsed_example)
           = converted parse_example unparsed_example"
    by (rule analyze_review_volume_caller) (rule unparsed_example_facts)+
  have t: "fst (analyze_sentiment_trend parse_example freq_D unparsed_example)
           = converted parse_example unparsed_example"
    by (rule analyze_sentiment_trend_caller) (rule unparsed_example_facts)+
  have "converted parse_example unparsed_example \<noteq> unparsed_example"
    using converted_unparsed_example unparsed_example_facts(4) by auto
  then show ?thesis
    unfolding v t using converted_unparsed_example unparsed_example_facts(4) by simp
qed


section \<open>The comparison endpoint\<close>

lemma full_analysis_not_warning:
  "full_analysis rq dp sa da rg p1 p2 \<noteq> Inr (Warning_response a b)"
  unfolding full_analysis_def and_then_def
  by (simp split: sum.splits)

lemma len_five: "len five_reviews_example = 5"
  by (simp add: len_def five_reviews_example_def)

text \<open>
  C1. When the loader and the two date filters succeed and both periods hold fewer than 10
  records, the comparison request is answered with the warning for insufficient data (and
  the two counts), not with a full comparison. This size check is the one gate of the
  request: the answer is the warning exactly when one of the two periods holds fewer than 10
  records, whatever the collaborators do afterwards.
\<close>

theorem compare_periods_admission_gate:
  assumes "load_data dp = Inr df"
    and "filter_by_date_range dp (period1_start rq) (period1_end rq) = Inr p1"
    and "filter_by_date_range dp (period2_start rq) (period2_end rq) = Inr p2"
  shows "(len p1 < 10 \<and> len p2 < 10 \<longrightarrow>
            compare_periods rq dp sa da rg = Inr (Warning_response (len p1) (len p2))) \<and>
         ((\<exists>a b. compare_periods rq dp sa da rg = Inr (Warning_response a b)) \<longleftrightarrow>
            len p1 < 10 \<or> len p2 < 10)"
proof -
  have u: "compare_periods rq dp sa da rg =
      (case (if len p1 < 10 \<or> len p2 < 10 then Inr (Warning_response (len p1) (len p2))
             else full_analysis rq dp sa da rg p1 p2)
       of Inl e \<Rightarrow> Inl (http_error_of e) | Inr response \<Rightarrow> Inr response)"
    by (simp add: compare_periods_def and_then_def assms)
  show ?thesis
    unfolding u using full_analysis_not_warning [of rq dp sa da rg p1 p2]
    by (auto split: sum.splits)
qed

theorem compare_periods_admission_gate_witness:
  "len five_reviews_example = 5 \<and>
   compare_periods request_example processor_example (\<lambda>df. Inr df) analyzer_example reporter_example
     = Inr (Warning_response 5 5)"
  using compare_periods_admission_gate [of processor_example five_reviews_example request_example
      five_reviews_example five_reviews_example "\<lambda>df. Inr df" analyzer_example reporter_example]
  by (simp add: len_five processor_example_def)


end
